theory Spec2Isabelle
  imports Complex_Main
begin

section \<open>Calendar layout computations of \<open>packages/calendar/src/compute.js\<close>\<close>

text \<open>
  Numbers of the source (pixel sizes, spacings, offsets) are JavaScript numbers; they are
  modelled as \<^typ>\<open>real\<close>. A \<open>Date\<close> is read by the source only through its local calendar
  fields (\<open>getFullYear\<close>, \<open>getMonth\<close>, \<open>getDate\<close>, \<open>getDay\<close>) and every date the layout
  creates is a local midnight, so a date is modelled by the number of its local calendar
  day, counted from 1970-01-01 (ECMAScript's \<open>Day(t)\<close>).
\<close>

type_synonym date = int

subsection \<open>ECMAScript dates\<close>

text \<open>
  The date arithmetic of the language standard. \<open>getFullYear\<close> is \<open>YearFromTime\<close>, which
  the standard describes as the largest year whose first day is not after the date; here
  it is computed from an estimate that is one year off at most.
\<close>

definition DaysInYear :: "int \<Rightarrow> int" where
  "DaysInYear y =
     (if y mod 4 \<noteq> 0 then 365
      else if y mod 100 \<noteq> 0 then 366
      else if y mod 400 \<noteq> 0 then 365
      else 366)"

definition DayFromYear :: "int \<Rightarrow> int" where
  "DayFromYear y =
     365 * (y - 1970) + (y - 1969) div 4 - (y - 1901) div 100 + (y - 1601) div 400"

definition getFullYear :: "date \<Rightarrow> int" where
  "getFullYear n =
     (let e = 1970 + (400 * n) div 146097
      in if n < DayFromYear e then e - 1
         else if DayFromYear (e + 1) \<le> n then e + 1
         else e)"

definition InLeapYear :: "date \<Rightarrow> int" where
  "InLeapYear n = (if DaysInYear (getFullYear n) = 365 then 0 else 1)"

definition DayWithinYear :: "date \<Rightarrow> int" where
  "DayWithinYear n = n - DayFromYear (getFullYear n)"

text \<open>The table of \<open>MonthFromTime\<close>, and the day of the year at which a month starts.\<close>

definition monthOf :: "int \<Rightarrow> int \<Rightarrow> int" where
  "monthOf d leap =
     (if d < 31 then 0
      else if d < 59 + leap then 1
      else if d < 90 + leap then 2
      else if d < 120 + leap then 3
      else if d < 151 + leap then 4
      else if d < 181 + leap then 5
      else if d < 212 + leap then 6
      else if d < 243 + leap then 7
      else if d < 273 + leap then 8
      else if d < 304 + leap then 9
      else if d < 334 + leap then 10
      else 11)"

definition monthStart :: "int \<Rightarrow> int \<Rightarrow> int" where
  "monthStart leap m =
     (if m = 0 then 0
      else if m = 1 then 31
      else if m = 2 then 59 + leap
      else if m = 3 then 90 + leap
      else if m = 4 then 120 + leap
      else if m = 5 then 151 + leap
      else if m = 6 then 181 + leap
      else if m = 7 then 212 + leap
      else if m = 8 then 243 + leap
      else if m = 9 then 273 + leap
      else if m = 10 then 304 + leap
      else 334 + leap)"

definition getMonth :: "date \<Rightarrow> int" where
  "getMonth n = monthOf (DayWithinYear n) (InLeapYear n)"

definition getDate :: "date \<Rightarrow> int" where
  "getDate n = DayWithinYear n - monthStart (InLeapYear n) (getMonth n) + 1"

text \<open>\<open>WeekDay(t) = (Day(t) + 4) modulo 7\<close>: 0 is Sunday, 1970-01-01 a Thursday.\<close>

definition getDay :: "date \<Rightarrow> int" where
  "getDay d = (d + 4) mod 7"

text \<open>
  \<open>MakeDay(year, month, date)\<close>: months beyond 0..11 carry into the year, and the day of
  the month is an offset from the first of the month, so day 0 is the day before it.
\<close>

definition MakeDay :: "int \<Rightarrow> int \<Rightarrow> int \<Rightarrow> date" where
  "MakeDay year month dt =
     (let ym = year + month div 12;
          mn = month mod 12
      in DayFromYear ym + monthStart (if DaysInYear ym = 365 then 0 else 1) mn + dt - 1)"

text \<open>
  \<open>new Date(year, month, date)\<close>: a year from 0 to 99 stands for 1900 + year.
\<close>

definition newDate :: "int \<Rightarrow> int \<Rightarrow> int \<Rightarrow> date" where
  "newDate year month dt =
     MakeDay (if 0 \<le> year \<and> year \<le> 99 then 1900 + year else year) month dt"

text \<open>\<open>ToIntegerOrInfinity\<close> on a finite number: truncation towards zero.\<close>

definition toInteger :: "real \<Rightarrow> int" where
  "toInteger v = (if v < 0 then \<lceil>v\<rceil> else \<lfloor>v\<rfloor>)"

text \<open>
  \<open>Array.prototype.slice(start)\<close>: a negative start counts from the end, and the start is
  clamped to the array.
\<close>

definition slice :: "'a list \<Rightarrow> real \<Rightarrow> 'a list" where
  "slice xs start =
     (let len = int (length xs);
          relativeStart = toInteger start;
          k = (if relativeStart < 0 then max (len + relativeStart) 0 else min relativeStart len)
      in drop (nat k) xs)"





subsection \<open>lodash and d3\<close>


text \<open>
  The intervals of d3-time, on local days. \<open>timeYear(date)\<close> floors to the first of
  January (\<open>setMonth(0, 1)\<close>); \<open>timeDays(start, stop)\<close> is every day from \<open>start\<close> up to
  \<open>stop\<close>, exclusive.
\<close>

definition timeYear :: "date \<Rightarrow> date" where
  "timeYear d = MakeDay (getFullYear d) 0 1"








text \<open>
  The week intervals, one for each weekday the week can start on: floor goes back to the
  last such weekday, \<open>count(start, end)\<close> is the number of week boundaries after \<open>start\<close>
  and up to \<open>end\<close>.
\<close>

datatype interval =
  timeSunday | timeMonday | timeTuesday | timeWednesday | timeThursday | timeFriday
  | timeSaturday

fun weekdayOf :: "interval \<Rightarrow> int" where
  "weekdayOf timeSunday = 0"
| "weekdayOf timeMonday = 1"
| "weekdayOf timeTuesday = 2"
| "weekdayOf timeWednesday = 3"
| "weekdayOf timeThursday = 4"
| "weekdayOf timeFriday = 5"
| "weekdayOf timeSaturday = 6"

definition interval_floor :: "interval \<Rightarrow> date \<Rightarrow> date" where
  "interval_floor i d = d - (getDay d + 7 - weekdayOf i) mod 7"

definition interval_offset :: "date \<Rightarrow> int \<Rightarrow> date" where
  "interval_offset d step = d + step * 7"

definition interval_ceil :: "interval \<Rightarrow> date \<Rightarrow> date" where
  "interval_ceil i d = interval_floor i (interval_offset (interval_floor i (d - 1)) 1)"

definition interval_count :: "interval \<Rightarrow> date \<Rightarrow> date \<Rightarrow> int" where
  "interval_count i start end = (interval_floor i end - interval_floor i start) div 7"

function interval_loop :: "interval \<Rightarrow> date \<Rightarrow> date \<Rightarrow> date list" where
  "interval_loop i start stop =
     start #
       (let next = interval_floor i (interval_offset start 1)
        in if start < next \<and> next < stop then interval_loop i next stop else [])"
  by pat_completeness auto
termination
  by (relation "measure (\<lambda>(i, start, stop). nat (stop - start))") auto

declare interval_loop.simps [simp del]

definition interval_range :: "interval \<Rightarrow> date \<Rightarrow> date \<Rightarrow> date list" where
  "interval_range i start stop =
     (let s = interval_ceil i start in if s < stop then interval_loop i s stop else [])"



subsection \<open>What the host provides\<close>

text \<open>
  \<open>alignBox\<close> of \<open>@nivo/core\<close> and the conversions of a number and of a \<open>Date\<close> to a
  string, which the template literals of the source apply, are parameters of the model.
\<close>

record BBox =
  bbox_x :: real
  bbox_y :: real
  bbox_width :: real
  bbox_height :: real

record host =
  alignBox :: "BBox \<Rightarrow> BBox \<Rightarrow> string \<Rightarrow> real \<times> real"
  numberToString :: "real \<Rightarrow> string"
  dateToString :: "date \<Rightarrow> string"

text \<open>
  A number in a template literal. Arithmetic on an undefined day index gives \<open>NaN\<close>,
  which is \<open>None\<close> here.
\<close>

definition numberText :: "host \<Rightarrow> real option \<Rightarrow> string" where
  "numberText h v = (case v of None \<Rightarrow> ''NaN'' | Some r \<Rightarrow> numberToString h r)"

subsection \<open>computeCellSize\<close>




subsection \<open>getDayIndex and getTimeInterval\<close>

text \<open>
  The destructuring \<open>[dayIndex] = days.slice(offsetDay)\<close> reads the first element of the
  slice, \<open>undefined\<close> (here \<open>None\<close>) when the slice is empty.
\<close>

definition getDayIndex :: "date \<Rightarrow> real \<Rightarrow> int option" where
  "getDayIndex d firstDayOfWeek =
     (let days = [0, 1, 2, 3, 4, 5, 6];
          day = getDay d;
          offsetDay = real_of_int day - firstDayOfWeek
      in case slice days offsetDay of [] \<Rightarrow> None | dayIndex # _ \<Rightarrow> Some dayIndex)"

definition getTimeInterval :: "real \<Rightarrow> interval" where
  "getTimeInterval firstDayOfWeek =
     (if firstDayOfWeek = 0 then timeSunday
      else if firstDayOfWeek = 1 then timeMonday
      else if firstDayOfWeek = 2 then timeTuesday
      else if firstDayOfWeek = 3 then timeWednesday
      else if firstDayOfWeek = 4 then timeThursday
      else if firstDayOfWeek = 5 then timeFriday
      else if firstDayOfWeek = 6 then timeSaturday
      else timeSunday)"

subsection \<open>monthPathAndBBox and its memoization\<close>

record monthArgs =
  a_date :: date
  a_cellSize :: real
  a_yearIndex :: nat
  a_yearSpacing :: real
  a_daySpacing :: real
  a_direction :: string
  a_originX :: real
  a_originY :: real
  a_firstDayOfWeek :: real

text \<open>
  The day \<open>t1\<close> of \<open>monthPathAndBBox\<close>, \<open>new Date(date.getFullYear(), date.getMonth() + 1, 0)\<close>,
  as a function of the month's date.
\<close>

definition t1_of :: "date \<Rightarrow> date" where
  "t1_of date = newDate (getFullYear date) (getMonth date + 1) 0"

text \<open>The result \<open>{ path, bbox }\<close> is a pair.\<close>

definition monthPathAndBBox :: "host \<Rightarrow> monthArgs \<Rightarrow> string \<times> BBox" where
  "monthPathAndBBox h a =
     (let date = a_date a; cellSize = a_cellSize a; yearIndex = a_yearIndex a;
          yearSpacing = a_yearSpacing a; daySpacing = a_daySpacing a;
          direction = a_direction a; originX = a_originX a; originY = a_originY a;
          firstDayOfWeek = a_firstDayOfWeek a;
          t1 = t1_of date;
          timeInterval = getTimeInterval firstDayOfWeek;
          firstWeek = real_of_int (interval_count timeInterval (timeYear date) date);
          lastWeek = real_of_int (interval_count timeInterval (timeYear t1) t1);
          firstDay = map_option real_of_int (getDayIndex date firstDayOfWeek);
          lastDay = map_option real_of_int (getDayIndex t1 firstDayOfWeek);
          yearOffset = real yearIndex * (7 * (cellSize + daySpacing) + yearSpacing);
          xO = (if direction = ''horizontal'' then originX else originX + yearOffset);
          yO = (if direction = ''horizontal'' then originY + yearOffset else originY);
          num = numberToString h;
          numNaN = numberText h
      in if direction = ''horizontal''
         then
           (concat
              [''M'', num (xO + (firstWeek + 1) * (cellSize + daySpacing)), '','',
                 numNaN (map_option (\<lambda>fd. yO + fd * (cellSize + daySpacing)) firstDay),
               ''H'', num (xO + firstWeek * (cellSize + daySpacing)),
                 ''V'', num (yO + 7 * (cellSize + daySpacing)),
               ''H'', num (xO + lastWeek * (cellSize + daySpacing)),
                 ''V'', numNaN (map_option (\<lambda>ld. yO + (ld + 1) * (cellSize + daySpacing)) lastDay),
               ''H'', num (xO + (lastWeek + 1) * (cellSize + daySpacing)), ''V'', num yO,
               ''H'', num (xO + (firstWeek + 1) * (cellSize + daySpacing)), ''Z''],
            \<lparr>bbox_x = xO + firstWeek * (cellSize + daySpacing),
             bbox_y = yO,
             bbox_width = xO + (lastWeek + 1) * (cellSize + daySpacing)
                            - (xO + firstWeek * (cellSize + daySpacing)),
             bbox_height = 7 * (cellSize + daySpacing)\<rparr>)
         else
           (concat
              [''M'', numNaN (map_option (\<lambda>fd. xO + fd * (cellSize + daySpacing)) firstDay), '','',
                 num (yO + (firstWeek + 1) * (cellSize + daySpacing)),
               ''H'', num xO, ''V'', num (yO + (lastWeek + 1) * (cellSize + daySpacing)),
               ''H'', numNaN (map_option (\<lambda>ld. xO + (ld + 1) * (cellSize + daySpacing)) lastDay),
                 ''V'', num (yO + lastWeek * (cellSize + daySpacing)),
               ''H'', num (xO + 7 * (cellSize + daySpacing)),
                 ''V'', num (yO + firstWeek * (cellSize + daySpacing)),
               ''H'', numNaN (map_option (\<lambda>fd. xO + fd * (cellSize + daySpacing)) firstDay), ''Z''],
            \<lparr>bbox_x = xO,
             bbox_y = yO + firstWeek * (cellSize + daySpacing),
             bbox_width = 7 * (cellSize + daySpacing),
             bbox_height = yO + (lastWeek + 1) * (cellSize + daySpacing)
                             - (yO + firstWeek * (cellSize + daySpacing))\<rparr>))"




subsection \<open>Cell positions\<close>

text \<open>
  The position \<open>{ x, y }\<close> of a day cell is a pair; a coordinate computed from an undefined
  day index is \<open>NaN\<close>, here \<open>None\<close>.
\<close>

definition cellPositionHorizontal ::
  "real \<Rightarrow> real \<Rightarrow> real \<Rightarrow> real \<Rightarrow> real \<Rightarrow> real \<Rightarrow> date \<Rightarrow> nat
     \<Rightarrow> real option \<times> real option" where
  "cellPositionHorizontal cellSize yearSpacing daySpacing firstDayOfWeek =
     (\<lambda>originX originY d yearIndex.
        let timeInterval = getTimeInterval firstDayOfWeek;
            weekOfYear = real_of_int (interval_count timeInterval (timeYear d) d)
        in (Some (originX + weekOfYear * (cellSize + daySpacing) + daySpacing / 2),
            map_option
              (\<lambda>dayIndex. originY + real_of_int dayIndex * (cellSize + daySpacing)
                  + daySpacing / 2
                  + real yearIndex * (yearSpacing + 7 * (cellSize + daySpacing)))
              (getDayIndex d firstDayOfWeek)))"

definition cellPositionVertical ::
  "real \<Rightarrow> real \<Rightarrow> real \<Rightarrow> real \<Rightarrow> real \<Rightarrow> real \<Rightarrow> date \<Rightarrow> nat
     \<Rightarrow> real option \<times> real option" where
  "cellPositionVertical cellSize yearSpacing daySpacing firstDayOfWeek =
     (\<lambda>originX originY d yearIndex.
        let timeInterval = getTimeInterval firstDayOfWeek;
            weekOfYear = real_of_int (interval_count timeInterval (timeYear d) d)
        in (map_option
              (\<lambda>dayIndex. originX + real_of_int dayIndex * (cellSize + daySpacing)
                  + daySpacing / 2
                  + real yearIndex * (yearSpacing + 7 * (cellSize + daySpacing)))
              (getDayIndex d firstDayOfWeek),
            Some (originY + weekOfYear * (cellSize + daySpacing) + daySpacing / 2)))"


subsection \<open>computeLayout\<close>

text \<open>
  A data record has a \<open>day\<close> key and a \<open>value\<close>; whatever else it carries is the
  record's extension.
\<close>

record DayData =
  dd_day :: string
  dd_value :: real

text \<open>
  A day cell. \<open>value\<close>, \<open>color\<close> and \<open>data\<close> are absent (\<open>None\<close>) until the binder
  sets them.
\<close>

record 'a Day =
  d_date :: date
  d_day :: string
  d_size :: real
  d_x :: "real option"
  d_y :: "real option"
  d_value :: "real option"
  d_color :: "string option"
  d_data :: "'a DayData_scheme option"


record Year =
  y_year :: int
  y_bbox :: BBox



text \<open>
  \<open>Math.max(...yearRange.map(...)) + 1\<close>, the week boundaries of each year counted by
  \<open>range(...).length\<close>.
\<close>

definition computeMaxWeeks :: "real \<Rightarrow> int list \<Rightarrow> int option" where
  "computeMaxWeeks firstDayOfWeek yearRange =
     (case map (\<lambda>year. int (length (interval_range (getTimeInterval firstDayOfWeek)
                                       (newDate year 0 1) (newDate (year + 1) 0 1))))
             yearRange of
        [] \<Rightarrow> None
      | n # ns \<Rightarrow> Some (fold max ns n + 1))"








subsection \<open>bindDaysData\<close>

text \<open>The body of \<open>data.forEach\<close> for one data record.\<close>

definition bindDayData ::
  "(real \<Rightarrow> string) \<Rightarrow> 'a Day \<Rightarrow> 'a DayData_scheme \<Rightarrow> 'a Day" where
  "bindDayData colorScale day dayData =
     (if dd_day dayData = d_day day
      then day\<lparr>d_value := Some (dd_value dayData),
               d_color := Some (colorScale (dd_value dayData)),
               d_data := Some dayData\<rparr>
      else day)"

text \<open>The callback of \<open>days.map\<close>: the day record updated in place and returned.\<close>

definition bindDay ::
  "'a DayData_scheme list \<Rightarrow> (real \<Rightarrow> string) \<Rightarrow> string \<Rightarrow> 'a Day \<Rightarrow> 'a Day" where
  "bindDay data colorScale emptyColor day =
     foldl (bindDayData colorScale) (day\<lparr>d_color := Some emptyColor\<rparr>) data"

definition bindDaysData ::
  "'a Day list \<Rightarrow> 'a DayData_scheme list \<Rightarrow> (real \<Rightarrow> string) \<Rightarrow> string \<Rightarrow> 'a Day list" where
  "bindDaysData days data colorScale emptyColor =
     map (bindDay data colorScale emptyColor) days"

subsection \<open>computeYearLegendPositions\<close>

record YearLegend = Year +
  yl_x :: real
  yl_y :: real
  yl_rotation :: real

definition yearLegendPosition :: "string \<Rightarrow> string \<Rightarrow> real \<Rightarrow> Year \<Rightarrow> YearLegend" where
  "yearLegendPosition direction position offset year =
     (let b = y_bbox year;
          (x, y, rotation) =
            (if direction = ''horizontal'' \<and> position = ''before''
             then (bbox_x b - offset, bbox_y b + bbox_height b / 2, - 90)
             else if direction = ''horizontal'' \<and> position = ''after''
             then (bbox_x b + bbox_width b + offset, bbox_y b + bbox_height b / 2, - 90)
             else if direction = ''vertical'' \<and> position = ''before''
             then (bbox_x b + bbox_width b / 2, bbox_y b - offset, 0)
             else (bbox_x b + bbox_width b / 2, bbox_y b + bbox_height b + offset, 0))
      in Year.extend year (YearLegend.fields x y rotation))"

definition computeYearLegendPositions ::
  "Year list \<Rightarrow> string \<Rightarrow> string \<Rightarrow> real \<Rightarrow> YearLegend list" where
  "computeYearLegendPositions years direction position offset =
     map (yearLegendPosition direction position offset) years"

subsection \<open>Notions the properties are stated with\<close>

text \<open>The day of the year at which a month ends, and the number of days of a month.\<close>

definition monthEnd :: "int \<Rightarrow> int \<Rightarrow> int" where
  "monthEnd leap m = (if m = 11 then 365 + leap else monthStart leap (m + 1))"

definition daysInMonth :: "int \<Rightarrow> int \<Rightarrow> int" where
  "daysInMonth y m =
     (let leap = (if DaysInYear y = 365 then 0 else 1)
      in monthEnd leap m - monthStart leap m)"














section \<open>Properties\<close>

subsection \<open>The calendar\<close>

lemma div_step:
  assumes "0 < k"
  shows "(a + 1) div k - a div k = (if (a + 1) mod k = 0 then 1 else (0::int))"
proof -
  define q r where "q = a div k" and "r = a mod k"
  have a: "a = r + k * q" and r: "0 \<le> r" "r < k"
    using assms by (simp_all add: q_def r_def)
  show ?thesis
  proof (cases "r + 1 = k")
    case True
    then have "a + 1 = k * (q + 1)"
      using a by (simp add: algebra_simps)
    then have "(a + 1) div k = q + 1" "(a + 1) mod k = 0"
      using assms by simp_all
    then show ?thesis by (simp add: q_def)
  next
    case False
    then have lt: "r + 1 < k" using r by simp
    have "a + 1 = (r + 1) + k * q" using a by simp
    then have "(a + 1) div k = q + (r + 1) div k" "(a + 1) mod k = (r + 1) mod k"
      using assms by (simp_all only: div_mult_self2 mod_mult_self2)
    then have "(a + 1) div k = q" "(a + 1) mod k = r + 1"
      using r lt by simp_all
    then show ?thesis using r by (simp add: q_def)
  qed
qed

lemma leap_step:
  assumes "0 < k" and "c mod k = 0"
  shows "(y - c + k) div k - (y - c + k - 1) div k = (if y mod k = 0 then 1 else (0::int))"
proof -
  have "(y - c + k) mod k = y mod k"
    using assms by (metis mod_add_self2 mod_diff_right_eq diff_zero)
  then show ?thesis
    using div_step [OF assms(1), of "y - c + k - 1"] by simp
qed

lemma step_sum:
  "f1 - f0 = a \<Longrightarrow> g1 - g0 = b \<Longrightarrow> h1 - h0 = c \<Longrightarrow>
   365 * (y - 1969) + f1 - g1 + h1 = (365 * (y - 1970) + f0 - g0 + h0) + (365 + a - b + c)"
  for y :: int
  by simp

lemma leap_cases:
  "365 + (if y mod 4 = 0 then 1 else 0) - (if y mod 100 = 0 then 1 else 0)
     + (if y mod 400 = 0 then 1 else 0) = DaysInYear y"
proof -
  have d: "y mod 400 = 0 \<Longrightarrow> y mod 100 = 0" "y mod 100 = 0 \<Longrightarrow> y mod 4 = 0"
    using dvd_trans [of 100 400 y] dvd_trans [of 4 100 y]
    by (simp_all add: mod_eq_0_iff_dvd)
  show ?thesis
    unfolding DaysInYear_def using d by (simp split: if_splits)
qed

lemma DayFromYear_step: "DayFromYear (y + 1) = DayFromYear y + DaysInYear y"
proof -
  have a: "(y - 1968) div 4 - (y - 1969) div 4 = (if y mod 4 = 0 then 1 else 0)"
    using leap_step [of 4 1972 y] by simp
  have b: "(y - 1900) div 100 - (y - 1901) div 100 = (if y mod 100 = 0 then 1 else 0)"
    using leap_step [of 100 2000 y] by simp
  have c: "(y - 1600) div 400 - (y - 1601) div 400 = (if y mod 400 = 0 then 1 else 0)"
    using leap_step [of 400 2000 y] by simp
  have e: "y + 1 - 1970 = y - 1969" "y + 1 - 1969 = y - 1968" "y + 1 - 1901 = y - 1900"
    "y + 1 - 1601 = y - 1600"
    by simp_all
  show ?thesis
    unfolding DayFromYear_def e step_sum [OF a b c] leap_cases ..
qed





lemma DaysInYear_range: "365 \<le> DaysInYear y \<and> DaysInYear y \<le> 366"
  by (simp add: DaysInYear_def)

lemma DayFromYear_less: "DayFromYear y < DayFromYear (y + 1)"
  using DayFromYear_step [of y] DaysInYear_range [of y] by linarith

lemma DayFromYear_mono: "y \<le> z \<Longrightarrow> DayFromYear y \<le> DayFromYear z"
proof (induction z rule: int_ge_induct)
  case base
  then show ?case by simp
next
  case (step i)
  then show ?case using DayFromYear_less [of i] by linarith
qed

lemma DayFromYear_strict: "y < z \<Longrightarrow> DayFromYear y < DayFromYear z"
  using DayFromYear_mono [of "y + 1" z] DayFromYear_less [of y] by linarith
















subsection \<open>The end of a month\<close>




lemmas calendar_eval =
  t1_of_def newDate_def MakeDay_def getFullYear_def getMonth_def getDate_def DayFromYear_def
  DaysInYear_def monthStart_def monthOf_def InLeapYear_def DayWithinYear_def daysInMonth_def
  monthEnd_def timeYear_def Let_def





subsection \<open>Week intervals\<close>

lemma weekdayOf_range: "0 \<le> weekdayOf i \<and> weekdayOf i \<le> 6"
  by (cases i) simp_all


lemma interval_floor_alt: "interval_floor i d = d - (d + 4 - weekdayOf i) mod 7"
proof -
  have "(getDay d + 7 - weekdayOf i) mod 7 = ((d + 4) mod 7 + (7 - weekdayOf i)) mod 7"
    by (simp add: getDay_def algebra_simps)
  also have "\<dots> = (d + 4 + (7 - weekdayOf i)) mod 7"
    by (simp only: mod_add_left_eq)
  also have "\<dots> = (d + 4 - weekdayOf i + 7) mod 7"
    by (simp add: algebra_simps)
  also have "\<dots> = (d + 4 - weekdayOf i) mod 7"
    by (simp only: mod_add_self2)
  finally show ?thesis
    by (simp add: interval_floor_def)
qed

lemma getDay_eq_weekday:
  "getDay d = weekdayOf i \<longleftrightarrow> (d + 4 - weekdayOf i) mod 7 = 0"
proof -
  have "(d + 4 - weekdayOf i) mod 7 = ((d + 4) mod 7 - weekdayOf i) mod 7"
    by (simp only: mod_diff_left_eq)
  moreover have "((d + 4) mod 7 - weekdayOf i) mod 7 = 0 \<longleftrightarrow> (d + 4) mod 7 = weekdayOf i"
  proof -
    have b: "- 6 \<le> (d + 4) mod 7 - weekdayOf i" "(d + 4) mod 7 - weekdayOf i \<le> 6"
      using weekdayOf_range [of i] pos_mod_sign [of 7 "d + 4"] pos_mod_bound [of 7 "d + 4"]
      by linarith+
    show ?thesis
    proof
      assume "((d + 4) mod 7 - weekdayOf i) mod 7 = 0"
      then have "7 dvd (d + 4) mod 7 - weekdayOf i"
        by (simp add: mod_eq_0_iff_dvd)
      then obtain k where k: "(d + 4) mod 7 - weekdayOf i = 7 * k" ..
      with b have "k = 0" by linarith
      with k show "(d + 4) mod 7 = weekdayOf i" by simp
    qed simp
  qed
  ultimately show ?thesis
    by (simp add: getDay_def)
qed

lemma interval_floor_bounds: "interval_floor i d \<le> d \<and> d - 6 \<le> interval_floor i d"
  unfolding interval_floor_alt
  using pos_mod_sign [of 7 "d + 4 - weekdayOf i"] pos_mod_bound [of 7 "d + 4 - weekdayOf i"]
  by linarith




lemma interval_floor_fixed:
  "getDay d = weekdayOf i \<Longrightarrow> interval_floor i d = d"
  by (simp add: interval_floor_alt getDay_eq_weekday)




text \<open>
  C10. A first day of the week that is none of the numbers 0 to 6 selects the Sunday
  interval, the one 0 selects; so the week offset of a day, the week count behind
  \<open>maxWeeks\<close>, the week coordinate of a cell and the bounding box of a month are those of
  \<open>firstDayOfWeek = 0\<close>.
\<close>

theorem getTimeInterval_default:
  assumes "firstDayOfWeek \<notin> {0, 1, 2, 3, 4, 5, 6}"
  shows "getTimeInterval firstDayOfWeek = timeSunday
         \<and> getTimeInterval firstDayOfWeek = getTimeInterval 0
         \<and> interval_count (getTimeInterval firstDayOfWeek) (timeYear d) d
             = interval_count (getTimeInterval 0) (timeYear d) d
         \<and> computeMaxWeeks firstDayOfWeek yearRange = computeMaxWeeks 0 yearRange
         \<and> fst (cellPositionHorizontal cellSize yearSpacing daySpacing firstDayOfWeek
                  originX originY d yearIndex)
             = fst (cellPositionHorizontal cellSize yearSpacing daySpacing 0
                  originX originY d yearIndex)
         \<and> snd (cellPositionVertical cellSize yearSpacing daySpacing firstDayOfWeek
                  originX originY d yearIndex)
             = snd (cellPositionVertical cellSize yearSpacing daySpacing 0
                  originX originY d yearIndex)
         \<and> snd (monthPathAndBBox h (a\<lparr>a_firstDayOfWeek := firstDayOfWeek\<rparr>))
             = snd (monthPathAndBBox h (a\<lparr>a_firstDayOfWeek := 0\<rparr>))"
proof -
  have i: "getTimeInterval firstDayOfWeek = timeSunday"
    using assms by (simp add: getTimeInterval_def)
  have z: "getTimeInterval 0 = timeSunday"
    by (simp add: getTimeInterval_def)
  show ?thesis
    by (simp add: i z computeMaxWeeks_def cellPositionHorizontal_def cellPositionVertical_def
        monthPathAndBBox_def Let_def)
qed

theorem getTimeInterval_default_witness:
  "getTimeInterval 7 = timeSunday
   \<and> interval_count (getTimeInterval 7) (timeYear 17544) 17544 = 1
   \<and> interval_count (getTimeInterval 0) (timeYear 17544) 17544 = 1
   \<and> interval_count (getTimeInterval 6) (timeYear 17544) 17544 = 2
   \<and> computeMaxWeeks 7 [2018] = computeMaxWeeks 0 [2018]"
  using getTimeInterval_default [of 7 17544 "[2018]"]
  by (simp add: getTimeInterval_def interval_count_def interval_floor_def getDay_def
      calendar_eval)

subsection \<open>Day index\<close>

lemma getDay_range: "0 \<le> getDay d \<and> getDay d \<le> 6"
  by (simp add: getDay_def)

lemma toInteger_of_int: "toInteger (real_of_int z) = z"
  by (simp add: toInteger_def)

lemma first_of_drop_days:
  assumes "0 \<le> j" and "j < 7"
  shows "(case drop (nat j) [0, 1, 2, 3, 4, 5, 6 :: int] of [] \<Rightarrow> None | x # _ \<Rightarrow> Some x)
           = Some j"
proof -
  from assms have "j = 0 \<or> j = 1 \<or> j = 2 \<or> j = 3 \<or> j = 4 \<or> j = 5 \<or> j = 6"
    by arith
  then show ?thesis
    by (elim disjE) simp_all
qed

lemma getDayIndex_of_int:
  assumes "0 \<le> k" and "k \<le> 6"
  shows "getDayIndex d (real_of_int k) = Some ((getDay d - k + 7) mod 7)"
proof -
  let ?z = "getDay d - k"
  have rng: "- 6 \<le> ?z" "?z \<le> 6"
    using assms getDay_range [of d] by auto
  have off: "real_of_int (getDay d) - real_of_int k = real_of_int ?z"
    by simp
  show ?thesis
  proof (cases "?z < 0")
    case True
    have "(?z + 7) mod 7 = ?z + 7"
      using rng True by (intro mod_pos_pos_trivial) simp_all
    then have m: "(?z + 7) mod 7 = 7 + ?z"
      by (simp only: add.commute)
    have "getDayIndex d (real_of_int k) = Some (7 + ?z)"
      unfolding getDayIndex_def slice_def Let_def off toInteger_of_int
      using True rng first_of_drop_days [of "7 + ?z"] by simp
    with m show ?thesis by (simp only: diff_add_cancel)
  next
    case False
    then have "(?z + 7) mod 7 = ?z mod 7" "?z mod 7 = ?z"
      using rng by simp_all
    then have m: "(?z + 7) mod 7 = ?z"
      by (simp only:)
    have "getDayIndex d (real_of_int k) = Some ?z"
      unfolding getDayIndex_def slice_def Let_def off toInteger_of_int
      using False rng first_of_drop_days [of ?z] by simp
    with m show ?thesis by (simp only:)
  qed
qed

text \<open>
  C1. For a first day of the week \<open>k\<close> in 0..6, \<open>getDayIndex\<close> is
  \<open>(nativeWeekday - k + 7) mod 7\<close>, a value in 0..6, and the seven consecutive days that
  start at a date whose weekday is \<open>k\<close> get the indices 0, 1, ..., 6 in this order.
\<close>

theorem getDayIndex_formula:
  assumes "0 \<le> k" and "k \<le> 6"
  shows "getDayIndex d (real_of_int k) = Some ((getDay d - k + 7) mod 7)
         \<and> 0 \<le> (getDay d - k + 7) mod 7 \<and> (getDay d - k + 7) mod 7 \<le> 6
         \<and> (getDay weekStart = k \<longrightarrow>
              map (\<lambda>i. getDayIndex (weekStart + i) (real_of_int k)) [0, 1, 2, 3, 4, 5, 6]
                = map Some [0, 1, 2, 3, 4, 5, 6])"
proof -
  have seq: "getDayIndex (weekStart + i) (real_of_int k) = Some i"
    if "getDay weekStart = k" and "0 \<le> i" and "i \<le> 6" for i
  proof -
    have "getDay (weekStart + i) = (k + i) mod 7"
      using that(1) unfolding getDay_def
      by (metis add.assoc add.commute mod_add_left_eq)
    then have "(getDay (weekStart + i) - k + 7) mod 7 = ((k + i) mod 7 - k) mod 7"
      by simp
    also have "\<dots> = (k + i - k) mod 7"
      by (simp only: mod_diff_left_eq)
    also have "\<dots> = i"
      using that by simp
    finally have "(getDay (weekStart + i) - k + 7) mod 7 = i" .
    then show ?thesis
      using getDayIndex_of_int [OF assms, of "weekStart + i"] by simp
  qed
  have bounds: "0 \<le> (getDay d - k + 7) mod 7 \<and> (getDay d - k + 7) mod 7 \<le> 6"
    by simp
  have week: "map (\<lambda>i. getDayIndex (weekStart + i) (real_of_int k)) [0, 1, 2, 3, 4, 5, 6]
                = map Some [0, 1, 2, 3, 4, 5, 6]" if "getDay weekStart = k"
    using seq [OF that, of 0] seq [OF that] by simp
  show ?thesis
    using getDayIndex_of_int [OF assms, of d] bounds week by blast
qed

theorem getDayIndex_formula_witness:
  "getDayIndex 17532 1 = Some 0 \<and> getDay 17532 = 1
   \<and> map (\<lambda>i. getDayIndex (17532 + i) 1) [0, 1, 2, 3, 4, 5, 6] = map Some [0, 1, 2, 3, 4, 5, 6]"
  using getDayIndex_formula [of 1 17532 17532] by (simp add: getDay_def)

subsection \<open>Cell size\<close>



subsection \<open>Binding data to the days\<close>

lemma bindDayData_key: "d_day (bindDayData colorScale day dayData) = d_day day"
  by (simp add: bindDayData_def)

lemma foldl_bindDayData:
  "foldl (bindDayData colorScale) day data =
     (let ms = filter (\<lambda>dayData. dd_day dayData = d_day day) data
      in if ms = [] then day
         else day\<lparr>d_value := Some (dd_value (last ms)),
                  d_color := Some (colorScale (dd_value (last ms))),
                  d_data := Some (last ms)\<rparr>)"
proof (induction data rule: rev_induct)
  case Nil
  then show ?case by simp
next
  case (snoc dayData data)
  then show ?case
    by (simp add: bindDayData_def Let_def)
qed

lemma bindDay_eq:
  "bindDay data colorScale emptyColor day =
     (let ms = filter (\<lambda>dayData. dd_day dayData = d_day day) data
      in if ms = [] then day\<lparr>d_color := Some emptyColor\<rparr>
         else day\<lparr>d_value := Some (dd_value (last ms)),
                  d_color := Some (colorScale (dd_value (last ms))),
                  d_data := Some (last ms)\<rparr>)"
  by (simp add: bindDay_def foldl_bindDayData Let_def)

lemma bindDay_key: "d_day (bindDay data colorScale emptyColor day) = d_day day"
  by (simp add: bindDay_eq Let_def)

lemma bindDay_idem:
  "bindDay data colorScale emptyColor (bindDay data colorScale emptyColor day)
     = bindDay data colorScale emptyColor day"
proof -
  let ?b = "bindDay data colorScale emptyColor day"
  have "bindDay data colorScale emptyColor ?b =
     (let ms = filter (\<lambda>dayData. dd_day dayData = d_day day) data
      in if ms = [] then ?b\<lparr>d_color := Some emptyColor\<rparr>
         else ?b\<lparr>d_value := Some (dd_value (last ms)),
                  d_color := Some (colorScale (dd_value (last ms))),
                  d_data := Some (last ms)\<rparr>)"
    by (simp only: bindDay_eq [of data colorScale emptyColor ?b] bindDay_key)
  then show ?thesis
    by (simp add: bindDay_eq [of data colorScale emptyColor day] Let_def)
qed

text \<open>
  C7. Binding the same data a second time changes nothing: the days after two bindings
  are the days after one (color and value included). Where data records match a day, its
  value, color and data are those of the last matching record in iteration order, after
  one binding and so after two.
\<close>

theorem bindDaysData_twice:
  "bindDaysData (bindDaysData days data colorScale emptyColor) data colorScale emptyColor
     = bindDaysData days data colorScale emptyColor
   \<and> (\<forall>i < length days.
        filter (\<lambda>dayData. dd_day dayData = d_day (days ! i)) data \<noteq> [] \<longrightarrow>
        (let m = last (filter (\<lambda>dayData. dd_day dayData = d_day (days ! i)) data);
             r = bindDaysData days data colorScale emptyColor ! i
         in d_value r = Some (dd_value m) \<and> d_color r = Some (colorScale (dd_value m))
            \<and> d_data r = Some m))"
proof -
  have "bindDaysData (bindDaysData days data colorScale emptyColor) data colorScale emptyColor
     = bindDaysData days data colorScale emptyColor"
    by (simp add: bindDaysData_def bindDay_idem)
  moreover have "\<forall>i < length days.
        filter (\<lambda>dayData. dd_day dayData = d_day (days ! i)) data \<noteq> [] \<longrightarrow>
        (let m = last (filter (\<lambda>dayData. dd_day dayData = d_day (days ! i)) data);
             r = bindDaysData days data colorScale emptyColor ! i
         in d_value r = Some (dd_value m) \<and> d_color r = Some (colorScale (dd_value m))
            \<and> d_data r = Some m)"
    by (simp add: bindDaysData_def bindDay_eq Let_def)
  ultimately show ?thesis by blast
qed

theorem bindDaysData_twice_witness:
  "(let day0 = \<lparr>d_date = 17532, d_day = ''2018-01-01'', d_size = 10, d_x = Some 0,
                 d_y = Some 0, d_value = None, d_color = None, d_data = None\<rparr>;
        data = [\<lparr>dd_day = ''2018-01-01'', dd_value = 3\<rparr>,
                \<lparr>dd_day = ''2018-01-02'', dd_value = 4\<rparr>,
                \<lparr>dd_day = ''2018-01-01'', dd_value = 5\<rparr>];
        colorScale = (\<lambda>v. if v < 4 then ''blue'' else ''red'');
        once = bindDaysData [day0] data colorScale ''grey''
    in bindDaysData once data colorScale ''grey'' = once
       \<and> d_value (once ! 0) = Some 5 \<and> d_color (once ! 0) = Some ''red'')"
  using bindDaysData_twice
    [of "[\<lparr>d_date = 17532, d_day = ''2018-01-01'', d_size = 10, d_x = Some 0,
           d_y = Some 0, d_value = None, d_color = None, d_data = None\<rparr>]"
        "[\<lparr>dd_day = ''2018-01-01'', dd_value = 3\<rparr>,
          \<lparr>dd_day = ''2018-01-02'', dd_value = 4\<rparr>,
          \<lparr>dd_day = ''2018-01-01'', dd_value = 5\<rparr>]"
        "\<lambda>v. if v < 4 then ''blue'' else ''red''" "''grey''"]
  by (simp add: Let_def)

text \<open>
  C9. A day that no data record matches comes out of \<open>bindDaysData\<close> with its color set
  to \<open>emptyColor\<close> and every other field as it was: a value and a data record it carried
  before the call stay on it.
\<close>

theorem bindDaysData_unmatched:
  assumes "i < length days"
    and "\<forall>dayData \<in> set data. dd_day dayData \<noteq> d_day (days ! i)"
  shows "bindDaysData days data colorScale emptyColor ! i
           = (days ! i)\<lparr>d_color := Some emptyColor\<rparr>
         \<and> d_color (bindDaysData days data colorScale emptyColor ! i) = Some emptyColor
         \<and> d_value (bindDaysData days data colorScale emptyColor ! i) = d_value (days ! i)
         \<and> d_data (bindDaysData days data colorScale emptyColor ! i) = d_data (days ! i)"
proof -
  have "filter (\<lambda>dayData. dd_day dayData = d_day (days ! i)) data = []"
    using assms(2) by (simp add: filter_empty_conv)
  then show ?thesis
    using assms(1) by (simp add: bindDaysData_def bindDay_eq Let_def)
qed

text \<open>
  The witness binds a day to a first data set and then to a second one that has no record
  for it: the value 3 and the data record of the first binding stay, beside the empty
  color.
\<close>

theorem bindDaysData_unmatched_witness:
  "(let day0 = \<lparr>d_date = 17532, d_day = ''2018-01-01'', d_size = 10, d_x = Some 0,
                 d_y = Some 0, d_value = None, d_color = None, d_data = None\<rparr>;
        first = bindDaysData [day0] [\<lparr>dd_day = ''2018-01-01'', dd_value = 3\<rparr>]
                  (\<lambda>v. ''red'') ''grey'';
        second = bindDaysData first [\<lparr>dd_day = ''2018-01-02'', dd_value = 4\<rparr>]
                  (\<lambda>v. ''red'') ''grey''
    in d_color (first ! 0) = Some ''red''
       \<and> d_color (second ! 0) = Some ''grey''
       \<and> d_value (second ! 0) = Some 3
       \<and> d_data (second ! 0) = Some \<lparr>dd_day = ''2018-01-01'', dd_value = 3\<rparr>)"
  using bindDaysData_unmatched
    [of 0 "bindDaysData
             [\<lparr>d_date = 17532, d_day = ''2018-01-01'', d_size = 10, d_x = Some 0,
               d_y = Some 0, d_value = None, d_color = None, d_data = None\<rparr>]
             [\<lparr>dd_day = ''2018-01-01'', dd_value = 3\<rparr>] (\<lambda>v. ''red'') ''grey''"
        "[\<lparr>dd_day = ''2018-01-02'', dd_value = 4\<rparr>]" "\<lambda>v. ''red''" "''grey''"]
  by (simp add: Let_def bindDaysData_def bindDay_def bindDayData_def)

subsection \<open>Year legends\<close>

text \<open>
  C8. With direction \<open>horizontal\<close> and position \<open>before\<close>, \<open>computeYearLegendPositions\<close>
  returns one entry for each year, in order: the year record with rotation -90,
  \<open>x = bbox.x - offset\<close> and \<open>y = bbox.y + bbox.height / 2\<close>.
\<close>

theorem computeYearLegendPositions_horizontal_before:
  "computeYearLegendPositions years ''horizontal'' ''before'' offset =
     map (\<lambda>year. Year.extend year
            (YearLegend.fields (bbox_x (y_bbox year) - offset)
               (bbox_y (y_bbox year) + bbox_height (y_bbox year) / 2) (- 90))) years
   \<and> length (computeYearLegendPositions years ''horizontal'' ''before'' offset) = length years
   \<and> list_all2 (\<lambda>year entry.
          yl_rotation entry = - 90
          \<and> yl_x entry = bbox_x (y_bbox year) - offset
          \<and> yl_y entry = bbox_y (y_bbox year) + bbox_height (y_bbox year) / 2
          \<and> y_year entry = y_year year \<and> y_bbox entry = y_bbox year)
        years (computeYearLegendPositions years ''horizontal'' ''before'' offset)"
  by (simp add: computeYearLegendPositions_def yearLegendPosition_def Let_def
      list_all2_map2 list_all2_same Year.defs YearLegend.defs)

subsection \<open>The outline cache\<close>







subsection \<open>The months and days of a year\<close>













subsection \<open>The years of a layout\<close>










subsection \<open>Day keys\<close>
















subsection \<open>The days of a layout\<close>













subsection \<open>The months of a layout computed with an empty cache\<close>







subsection \<open>The bounding boxes of the months\<close>
















subsection \<open>Overlap and adjacency of the months\<close>

















end
